theory Spec2Isabelle
  imports Main
begin

section \<open>The budget check of src/index.ts\<close>

text \<open>
  The script logs into the Kickbase API, finds the account's leagues, reads the budget of
  the first league and sends one WhatsApp message through Twilio when the budget is below
  the threshold. Its module-level variables, the calls it makes to the outside and the
  lines it writes with \<^verbatim>\<open>console.error\<close> are the fields of one record that every
  function takes and returns. What the outside answers is a second record, read only.
  A thrown error or a rejected promise is the \<open>Inl\<close> of a sum.

  The informational lines written with \<^verbatim>\<open>console.log\<close> and \<^verbatim>\<open>console.warn\<close>
  are left out, except where building the line can throw. The request headers, the
  credentials and the Twilio addresses are configuration that is the same on every call;
  a recorded call keeps the method, the path below \<^verbatim>\<open>KICKBASE_API_BASE\<close>, the token
  put into the \<^verbatim>\<open>Authorization\<close> header and the template variables.
  Response bodies are taken at the types the source casts them to, with one exception:
  the cast checks nothing, and an entry of a league array may be a falsy value.
\<close>

subsection \<open>Data\<close>

text \<open>\<^verbatim>\<open>interface KickbaseLeague\<close>; \<open>league_id\<close> and \<open>league_name\<close> are its \<^verbatim>\<open>id\<close> and \<^verbatim>\<open>name\<close>.\<close>

record KickbaseLeague =
  league_id :: string
  league_name :: string
  creator :: string
  creatorId :: string
  creation :: string
  maxMembers :: int
  adminCount :: int
  memberCount :: int
  isCommissioner :: bool
  cpi :: string

text \<open>
  An entry of a league array as it arrives: a league object, or a falsy value such as
  JSON \<^verbatim>\<open>null\<close> (\<open>None\<close>), which \<^verbatim>\<open>response.json() as ...\<close> lets through.
\<close>

type_synonym league_entry = "KickbaseLeague option"

text \<open>
  \<^verbatim>\<open>interface KickbaseLoginResponse\<close>, without the user profile \<^verbatim>\<open>u\<close>, which the script
  never reads. \<open>srvl\<close> is optional.
\<close>

record KickbaseLoginResponse =
  tkn :: string
  tknex :: string
  srvl :: "league_entry list option"

text \<open>
  The body of \<^verbatim>\<open>GET /v4/leagues\<close>: an object with an optional \<^verbatim>\<open>leagues\<close> field, or a
  bare array.
\<close>

datatype leagues_data = Wrapped "league_entry list option" | Bare "league_entry list"

text \<open>
  The body of the budget endpoint, \<^verbatim>\<open>{ pbas?: number; b?: number; bs?: number }\<close>. The
  budget is an integer (section 3 of the specification); a JSON integer is an exact
  Number up to \<open>2 ^ 53\<close>.
\<close>

record budget_data =
  budget_pbas :: "int option"
  budget_b :: "int option"
  budget_bs :: "int option"

text \<open>
  Errors. \<open>Error m\<close> is \<^verbatim>\<open>new Error(m)\<close> thrown by the script itself, \<open>RangeError m\<close>
  is thrown by a built-in of the language, and \<open>Rejection m\<close> is an error object made
  outside the script: \<^verbatim>\<open>fetch\<close> rejecting, a body that cannot be read or parsed, the
  Twilio client rejecting. The outside gives the message \<open>m\<close> of its rejections.
\<close>

datatype js_error = Error string | RangeError string | Rejection string

text \<open>
  A \<^verbatim>\<open>Response\<close>: \<open>body_text\<close> is what \<^verbatim>\<open>response.text()\<close> settles to, \<open>body_json\<close>
  what \<^verbatim>\<open>response.json()\<close> settles to.
\<close>

record 'a response =
  status :: nat
  statusText :: string
  body_text :: "string + string"
  body_json :: "string + 'a"

definition ok :: "'a response \<Rightarrow> bool" where
  "ok r = (200 \<le> status r \<and> status r \<le> 299)"

text \<open>A \<^verbatim>\<open>Date\<close> object holds a time value in milliseconds, or NaN.\<close>

datatype Date = Date int | Invalid_Date

datatype call =
    Fetch_POST string
  | Fetch_GET string "string option"
  | Messages_create "(string \<times> string) list"

datatype console_arg = Err js_error | Str string

text \<open>
  The outside world. The answer to a call is chosen by the number of calls made before
  it, the value of \<^verbatim>\<open>Date.now()\<close> by the number of times it was read before.
  \<open>Date_parse\<close> is the host's parser of date strings (\<open>None\<close> for NaN) and
  \<open>Number_toString m e\<close> the host's \<^verbatim>\<open>Number::toString\<close> of \<open>m * 2 ^ e\<close>, which
  \<^verbatim>\<open>toFixed\<close> falls back to from \<open>10 ^ 21\<close> on.
\<close>

record env =
  Date_now :: "nat \<Rightarrow> int"
  Date_parse :: "string \<Rightarrow> int option"
  Number_toString :: "nat \<Rightarrow> int \<Rightarrow> string"
  fetch_login :: "nat \<Rightarrow> string + KickbaseLoginResponse response"
  fetch_leagues :: "nat \<Rightarrow> string + leagues_data response"
  fetch_budget :: "nat \<Rightarrow> string + budget_data response"
  messages_create :: "nat \<Rightarrow> string + string"

text \<open>
  The state of the process: the three module-level variables, then the history of
  calls, the output of \<^verbatim>\<open>console.error\<close> and the number of clock reads.
\<close>

record world =
  authToken :: "string option"
  tokenExpiry :: "Date option"
  cachedLeagues :: "league_entry list"
  calls :: "call list"
  console :: "(string \<times> console_arg) list"
  clock_reads :: nat

definition initial :: world where
  "initial = \<lparr>authToken = None, tokenExpiry = None, cachedLeagues = [],
     calls = [], console = [], clock_reads = 0\<rparr>"

definition KICKBASE_BUDGET_THRESHOLD :: int where
  "KICKBASE_BUDGET_THRESHOLD = 0"

subsection \<open>Built-ins of the language\<close>

text \<open>Decimal digits of a natural number, as a template literal prints it.\<close>

definition digit :: "nat \<Rightarrow> char" where
  "digit n = ''0123456789'' ! n"

fun decimal :: "nat \<Rightarrow> string" where
  "decimal n =
     (if n < 10 then [digit n]
      else decimal (n div 10) @ [digit (n mod 10)])"

declare decimal.simps [simp del]

text \<open>\<^verbatim>\<open>TimeClip\<close>: a time value beyond 8.64e15 ms on either side is NaN.\<close>

definition TimeClip :: "int \<Rightarrow> Date" where
  "TimeClip t = (if \<bar>t\<bar> \<le> 8640000000000000 then Date t else Invalid_Date)"

text \<open>\<^verbatim>\<open>new Date(s)\<close> for a string \<open>s\<close>.\<close>

definition new_Date :: "env \<Rightarrow> string \<Rightarrow> Date" where
  "new_Date env s = (case Date_parse env s of None \<Rightarrow> Invalid_Date | Some t \<Rightarrow> TimeClip t)"

text \<open>\<^verbatim>\<open>a > b\<close> on two dates compares their time values; with a NaN it is false.\<close>

fun Date_gt :: "Date \<Rightarrow> Date \<Rightarrow> bool" where
  "Date_gt (Date x) (Date y) = (x > y)"
| "Date_gt _ _ = False"

text \<open>
  \<^verbatim>\<open>toISOString\<close> throws a RangeError on an invalid date; the string it returns
  otherwise is only logged.
\<close>

fun toISOString :: "Date \<Rightarrow> js_error + unit" where
  "toISOString (Date t) = Inr ()"
| "toISOString Invalid_Date = Inl (RangeError ''Invalid time value'')"

text \<open>\<^verbatim>\<open>!authToken\<close> holds of \<^verbatim>\<open>null\<close> and of the empty string.\<close>

fun falsy :: "string option \<Rightarrow> bool" where
  "falsy None = True"
| "falsy (Some s) = (s = [])"

subsection \<open>Numbers\<close>

text \<open>
  A finite Number of positive sign is written \<open>(m, e)\<close> for the value \<open>m * 2 ^ e\<close>.
  \<open>Number_div a d\<close> is \<^verbatim>\<open>a / d\<close> for positive integers that are Numbers: the
  quotient rounded to 53 significant bits, ties to the even mantissa. (An integer
  Number divided by \<open>10 ^ 6\<close> is at least \<open>10 ^ - 6\<close> and below \<open>2 ^ 1024\<close>, far from the
  subnormal range and from overflow.)
\<close>

fun bitlen :: "nat \<Rightarrow> nat" where
  "bitlen n = (if n = 0 then 0 else Suc (bitlen (n div 2)))"

declare bitlen.simps [simp del]

text \<open>\<open>scaled a d e = (N, D)\<close> with \<open>N / D = a / (d * 2 ^ e)\<close>.\<close>

definition scaled :: "nat \<Rightarrow> nat \<Rightarrow> int \<Rightarrow> nat \<times> nat" where
  "scaled a d e = (if 0 \<le> e then (a, d * 2 ^ nat e) else (a * 2 ^ nat (- e), d))"

text \<open>
  The exponent: with \<open>e1\<close> taken from the bit lengths the quotient \<open>a / (d * 2 ^ e1)\<close>
  lies between \<open>2 ^ 52\<close> and \<open>2 ^ 54\<close>; one comparison decides between \<open>e1\<close> and
  \<open>e1 + 1\<close>.
\<close>

definition chosen_exponent :: "nat \<Rightarrow> nat \<Rightarrow> int" where
  "chosen_exponent a d =
     (let e1 = int (bitlen a) - int (bitlen d) - 53
      in case scaled a d e1 of (N1, D1) \<Rightarrow> if N1 < 2 ^ 53 * D1 then e1 else e1 + 1)"

definition Number_div :: "nat \<Rightarrow> nat \<Rightarrow> nat \<times> int" where
  "Number_div a d =
     (let e = chosen_exponent a d
      in case scaled a d e of (N, D) \<Rightarrow>
           let q = N div D; r = N mod D
           in (if 2 * r < D then q
               else if D < 2 * r then q + 1
               else if even q then q else q + 1, e))"

text \<open>
  \<^verbatim>\<open>x.toFixed(2)\<close> for \<open>x = m * 2 ^ e \<ge> 0\<close>. From \<open>10 ^ 21\<close> on the result is
  \<^verbatim>\<open>Number::toString\<close>, taken from the host. Below, \<open>n\<close> is the integer with \<open>n / 100\<close>
  nearest to \<open>x\<close>, the larger one of two; its digits are padded with zeros to three and
  the point goes before the last two.
\<close>

definition nearest_hundredths :: "nat \<Rightarrow> int \<Rightarrow> nat" where
  "nearest_hundredths m e =
     (if 0 \<le> e then 100 * m * 2 ^ nat e
      else (200 * m + 2 ^ nat (- e)) div 2 ^ (nat (- e) + 1))"

definition at_least_1e21 :: "nat \<Rightarrow> int \<Rightarrow> bool" where
  "at_least_1e21 m e =
     (if 0 \<le> e then 10 ^ 21 \<le> m * 2 ^ nat e else 10 ^ 21 * 2 ^ nat (- e) \<le> m)"

definition toFixed2 :: "env \<Rightarrow> nat \<times> int \<Rightarrow> string" where
  "toFixed2 env x =
     (case x of (m, e) \<Rightarrow>
        if at_least_1e21 m e then Number_toString env m e
        else
          let n = nearest_hundredths m e;
              ds = (if n = 0 then ''0'' else decimal n);
              ds = (if length ds \<le> 2 then replicate (3 - length ds) CHR ''0'' @ ds else ds);
              k = length ds
          in take (k - 2) ds @ ''.'' @ drop (k - 2) ds)"

text \<open>
  The template literal \<^verbatim>\<open>${(budget / 1_000_000).toFixed(2)}M\<close>. \<^verbatim>\<open>toFixed\<close> writes the
  sign of a negative number and then works on its magnitude. A budget of zero gives
  the Number zero.
\<close>

definition millions :: "env \<Rightarrow> int \<Rightarrow> string" where
  "millions env budget =
     (let a = nat \<bar>budget\<bar>;
          x = (if a = 0 then (0, 0) else Number_div a 1000000)
      in (if budget < 0 then ''-'' else '''') @ toFixed2 env x @ ''M'')"

subsection \<open>Effects\<close>

definition console_error :: "string \<Rightarrow> console_arg \<Rightarrow> world \<Rightarrow> world" where
  "console_error label a w = w\<lparr>console := console w @ [(label, a)]\<rparr>"

definition record_call :: "call \<Rightarrow> world \<Rightarrow> world" where
  "record_call c w = w\<lparr>calls := calls w @ [c]\<rparr>"

text \<open>\<^verbatim>\<open>catch (error) { console.error(label, error); throw error; }\<close>\<close>

definition log_and_rethrow :: "string \<Rightarrow> (js_error + 'a) \<times> world \<Rightarrow> (js_error + 'a) \<times> world" where
  "log_and_rethrow label r =
     (case r of
        (Inl e, w) \<Rightarrow> (Inl e, console_error label (Err e) w)
      | (Inr x, w) \<Rightarrow> (Inr x, w))"

subsection \<open>Session\<close>

text \<open>The body of the \<^verbatim>\<open>try\<close> block of \<^verbatim>\<open>loginToKickbase\<close>.\<close>

definition login_body :: "env \<Rightarrow> world \<Rightarrow> (js_error + KickbaseLoginResponse) \<times> world" where
  "login_body env w =
     (let w1 = record_call (Fetch_POST ''/v4/user/login'') w in
      case fetch_login env (length (calls w)) of
        Inl m \<Rightarrow> (Inl (Rejection m), w1)
      | Inr response \<Rightarrow>
          if \<not> ok response then
            (case body_text response of
               Inl m \<Rightarrow> (Inl (Rejection m), w1)
             | Inr errorText \<Rightarrow>
                 (Inl (Error (''Login failed: '' @ decimal (status response) @ '' ''
                        @ statusText response)),
                  console_error ''Login error response:'' (Str errorText) w1))
          else
            (case body_json response of
               Inl m \<Rightarrow> (Inl (Rejection m), w1)
             | Inr loginData \<Rightarrow>
                 let expiry = new_Date env (tknex loginData);
                     w2 = w1\<lparr>authToken := Some (tkn loginData), tokenExpiry := Some expiry\<rparr>;
                     w3 = (case srvl loginData of
                             None \<Rightarrow> w2
                           | Some leagues \<Rightarrow> w2\<lparr>cachedLeagues := leagues\<rparr>)
                 in (case toISOString expiry of
                       Inl e \<Rightarrow> (Inl e, w3)
                     | Inr _ \<Rightarrow> (Inr loginData, w3))))"

definition loginToKickbase :: "env \<Rightarrow> world \<Rightarrow> (js_error + KickbaseLoginResponse) \<times> world" where
  "loginToKickbase env w = log_and_rethrow ''Failed to login to Kickbase:'' (login_body env w)"

text \<open>
  \<^verbatim>\<open>isTokenValid\<close> returns before it reads the clock when the token or the expiry
  is missing.
\<close>

definition isTokenValid :: "env \<Rightarrow> world \<Rightarrow> bool \<times> world" where
  "isTokenValid env w =
     (if falsy (authToken w) then (False, w)
      else case tokenExpiry w of
        None \<Rightarrow> (False, w)
      | Some expiry \<Rightarrow>
          let fiveMinutesFromNow = TimeClip (Date_now env (clock_reads w) + 5 * 60 * 1000)
          in (Date_gt expiry fiveMinutesFromNow, w\<lparr>clock_reads := Suc (clock_reads w)\<rparr>))"

definition ensureAuthenticated :: "env \<Rightarrow> world \<Rightarrow> (js_error + unit) \<times> world" where
  "ensureAuthenticated env w =
     (case isTokenValid env w of (valid, w1) \<Rightarrow>
        if \<not> valid then
          (case log_and_rethrow ''Authentication failed:'' (loginToKickbase env w1) of
             (Inl e, w2) \<Rightarrow> (Inl e, w2)
           | (Inr _, w2) \<Rightarrow> (Inr (), w2))
        else (Inr (), w1))"

subsection \<open>Leagues and budget\<close>

text \<open>\<^verbatim>\<open>data.leagues || (Array.isArray(data) ? data : [])\<close>; an empty array is truthy.\<close>

fun leagues_of :: "leagues_data \<Rightarrow> league_entry list" where
  "leagues_of (Wrapped (Some leagues)) = leagues"
| "leagues_of (Wrapped None) = []"
| "leagues_of (Bare leagues) = leagues"

text \<open>
  The loop over \<^verbatim>\<open>possibleEndpoints\<close> and the \<^verbatim>\<open>throw\<close> after it. Whatever goes
  wrong at one endpoint is logged and the loop goes on.
\<close>

fun probe :: "env \<Rightarrow> string list \<Rightarrow> world \<Rightarrow> (js_error + league_entry list) \<times> world" where
  "probe env [] w = (Inl (Error ''Could not fetch leagues from any known endpoint''), w)"
| "probe env (endpoint # rest) w =
     (let w1 = record_call (Fetch_GET endpoint (authToken w)) w in
      case fetch_leagues env (length (calls w)) of
        Inl m \<Rightarrow> probe env rest w1
      | Inr response \<Rightarrow>
          if ok response then
            (case body_json response of
               Inl m \<Rightarrow> probe env rest w1
             | Inr data \<Rightarrow>
                 let leagues = leagues_of data in
                 if length leagues > 0 then (Inr leagues, w1\<lparr>cachedLeagues := leagues\<rparr>)
                 else probe env rest w1)
          else probe env rest w1)"

definition possibleEndpoints :: "string list" where
  "possibleEndpoints = [''/v4/leagues'']"

definition getKickbaseLeagues :: "env \<Rightarrow> world \<Rightarrow> (js_error + league_entry list) \<times> world" where
  "getKickbaseLeagues env w =
     (case ensureAuthenticated env w of
        (Inl e, w1) \<Rightarrow> (Inl e, w1)
      | (Inr _, w1) \<Rightarrow>
          if length (cachedLeagues w1) > 0 then (Inr (cachedLeagues w1), w1)
          else probe env possibleEndpoints w1)"

text \<open>
  \<^verbatim>\<open>const primaryLeague = leagues[0]\<close> followed by the test \<^verbatim>\<open>!primaryLeague\<close>:
  \<open>None\<close> when the test holds, that is on an empty array (\<^verbatim>\<open>undefined\<close>) and on a
  falsy first entry.
\<close>

fun first_league :: "league_entry list \<Rightarrow> KickbaseLeague option" where
  "first_league [] = None"
| "first_league (None # _) = None"
| "first_league (Some l # _) = Some l"

text \<open>\<^verbatim>\<open>budgetData.b || 0\<close>\<close>

fun or_zero :: "int option \<Rightarrow> int" where
  "or_zero None = 0"
| "or_zero (Some n) = n"

definition budget_path :: "string \<Rightarrow> string" where
  "budget_path lid = ''/v4/leagues/'' @ lid @ ''/me/budget''"

text \<open>The body of the \<^verbatim>\<open>try\<close> block of \<^verbatim>\<open>getKickbaseBudget\<close>.\<close>

definition budget_body :: "env \<Rightarrow> world \<Rightarrow> (js_error + int) \<times> world" where
  "budget_body env w =
     (case ensureAuthenticated env w of
        (Inl e, w1) \<Rightarrow> (Inl e, w1)
      | (Inr _, w1) \<Rightarrow>
          (case getKickbaseLeagues env w1 of
             (Inl e, w2) \<Rightarrow> (Inl e, w2)
           | (Inr leagues, w2) \<Rightarrow>
               if length leagues = 0 then (Inl (Error ''No leagues found for user''), w2)
               else
                 (case first_league leagues of
                    None \<Rightarrow> (Inl (Error ''No primary league found''), w2)
                  | Some primaryLeague \<Rightarrow>
                      (let w3 = record_call
                                  (Fetch_GET (budget_path (league_id primaryLeague))
                                     (authToken w2)) w2
                       in (case fetch_budget env (length (calls w2)) of
                             Inl m \<Rightarrow> (Inl (Rejection m), w3)
                           | Inr response \<Rightarrow>
                               if \<not> ok response then
                                 (Inl (Error (''Failed to get budget data: ''
                                         @ decimal (status response) @ '' ''
                                         @ statusText response)), w3)
                               else
                                 (case body_json response of
                                    Inl m \<Rightarrow> (Inl (Rejection m), w3)
                                  | Inr budgetData \<Rightarrow>
                                      (Inr (or_zero (budget_b budgetData)), w3)))))))"

definition getKickbaseBudget :: "env \<Rightarrow> world \<Rightarrow> (js_error + int) \<times> world" where
  "getKickbaseBudget env w = log_and_rethrow ''Failed to fetch budget:'' (budget_body env w)"

subsection \<open>Alert and run\<close>

text \<open>
  \<open>contentVariables\<close> is the object handed to \<^verbatim>\<open>JSON.stringify\<close>. The rejection of
  \<^verbatim>\<open>client.messages.create\<close> is caught inside the function.
\<close>

definition contentVariables :: "env \<Rightarrow> int \<Rightarrow> (string \<times> string) list" where
  "contentVariables env budget = [(''1'', millions env budget), (''2'', ''20:30'')]"

definition sendWhatsappAlert :: "env \<Rightarrow> int \<Rightarrow> world \<Rightarrow> (js_error + unit) \<times> world" where
  "sendWhatsappAlert env budget w =
     (let w1 = record_call (Messages_create (contentVariables env budget)) w in
      case messages_create env (length (calls w)) of
        Inl m \<Rightarrow> (Inr (), console_error ''Error sending message:'' (Err (Rejection m)) w1)
      | Inr message \<Rightarrow> (Inr (), w1))"

text \<open>The body of the \<^verbatim>\<open>try\<close> block of \<^verbatim>\<open>runCheck\<close>.\<close>

definition check_body :: "env \<Rightarrow> world \<Rightarrow> (js_error + unit) \<times> world" where
  "check_body env w =
     (case getKickbaseBudget env w of
        (Inl e, w1) \<Rightarrow> (Inl e, w1)
      | (Inr currentBudget, w1) \<Rightarrow>
          if currentBudget < KICKBASE_BUDGET_THRESHOLD then sendWhatsappAlert env currentBudget w1
          else (Inr (), w1))"

text \<open>\<^verbatim>\<open>catch (error) { console.error("Fatal error during budget check:", error); }\<close>\<close>

definition runCheck :: "env \<Rightarrow> world \<Rightarrow> (js_error + unit) \<times> world" where
  "runCheck env w =
     (case check_body env w of
        (Inl e, w1) \<Rightarrow> (Inr (), console_error ''Fatal error during budget check:'' (Err e) w1)
      | (Inr _, w1) \<Rightarrow> (Inr (), w1))"

subsection \<open>The specification's wording, and notions used in the statements\<close>

text \<open>The calls made between two states of the process.\<close>

definition calls_since :: "world \<Rightarrow> world \<Rightarrow> call list" where
  "calls_since w w' = drop (length (calls w)) (calls w')"

fun is_notification :: "call \<Rightarrow> bool" where
  "is_notification (Messages_create _) = True"
| "is_notification _ = False"

text \<open>The calls of league discovery: the login and the reads of the league-listing endpoints.\<close>

fun is_discovery :: "call \<Rightarrow> bool" where
  "is_discovery (Fetch_POST p) = (p = ''/v4/user/login'')"
| "is_discovery (Fetch_GET p t) = (p \<in> set possibleEndpoints)"
| "is_discovery (Messages_create v) = False"

text \<open>The three module-level variables.\<close>

definition session :: "world \<Rightarrow> string option \<times> Date option \<times> league_entry list" where
  "session w = (authToken w, tokenExpiry w, cachedLeagues w)"

text \<open>A time value that a \<^verbatim>\<open>Date\<close> object can hold, and a well-formed \<^verbatim>\<open>Date\<close>.\<close>

definition valid_time :: "int \<Rightarrow> bool" where
  "valid_time t = (\<bar>t\<bar> \<le> 8640000000000000)"

fun valid_Date :: "Date option \<Rightarrow> bool" where
  "valid_Date (Some (Date t)) = valid_time t"
| "valid_Date _ = True"

text \<open>"expiry is strictly later than" a time, on the stored expiry.\<close>

fun later_than :: "Date option \<Rightarrow> int \<Rightarrow> bool" where
  "later_than (Some (Date t)) x = (x < t)"
| "later_than _ _ = False"

text \<open>
  Section 8 of the specification:
  \<^verbatim>\<open>isValid(token, expiry, now) == (token != null && expiry > now + 5min)\<close>.
\<close>

definition spec_isValid :: "string option \<Rightarrow> Date option \<Rightarrow> int \<Rightarrow> bool" where
  "spec_isValid token expiry now = (token \<noteq> None \<and> later_than expiry (now + 5 * 60 * 1000))"

text \<open>
  The \<open>n\<close>-th call, if it is a login, succeeds, carries no league list and has an
  expiry that parses; if it goes to the leagues endpoint, it is answered by the wrapped
  empty sequence \<^verbatim>\<open>{leagues: []}\<close>.
\<close>

definition login_without_leagues :: "env \<Rightarrow> nat \<Rightarrow> bool" where
  "login_without_leagues env n =
     (case fetch_login env n of
        Inl m \<Rightarrow> False
      | Inr r \<Rightarrow> ok r \<and>
          (case body_json r of
             Inl m \<Rightarrow> False
           | Inr d \<Rightarrow> srvl d = None \<and> new_Date env (tknex d) \<noteq> Invalid_Date))"

definition leagues_wrapped_empty :: "env \<Rightarrow> nat \<Rightarrow> bool" where
  "leagues_wrapped_empty env n =
     (case fetch_leagues env n of
        Inl m \<Rightarrow> False
      | Inr r \<Rightarrow> ok r \<and> body_json r = Inr (Wrapped (Some [])))"

text \<open>
  How the login attempt made as the \<open>n\<close>-th call ends when no parsed success response
  arrives, as the error the attempt then fails with: \<^verbatim>\<open>fetch\<close> rejects; a non-success
  status arrives, with a body that can be read or not; the body of a success response
  cannot be read. \<open>None\<close> when a success response is parsed.
\<close>

definition login_refusal :: "env \<Rightarrow> nat \<Rightarrow> js_error option" where
  "login_refusal env n =
     (case fetch_login env n of
        Inl m \<Rightarrow> Some (Rejection m)
      | Inr r \<Rightarrow>
          if ok r then (case body_json r of Inl m \<Rightarrow> Some (Rejection m) | Inr d \<Rightarrow> None)
          else (case body_text r of
                  Inl m \<Rightarrow> Some (Rejection m)
                | Inr body \<Rightarrow>
                    Some (Error (''Login failed: '' @ decimal (status r) @ '' ''
                            @ statusText r))))"




fun message :: "js_error \<Rightarrow> string" where
  "message (Error m) = m"
| "message (RangeError m) = m"
| "message (Rejection m) = m"


text \<open>The messages of the two defensive throws of \<^verbatim>\<open>getKickbaseBudget\<close>.\<close>

definition defensive :: "string set" where
  "defensive = {''No leagues found for user'', ''No primary league found''}"



subsection \<open>Sample inputs\<close>

definition league_1 :: KickbaseLeague where
  "league_1 = \<lparr>league_id = ''42'', league_name = ''Liga'', creator = ''Leon'',
     creatorId = ''7'', creation = ''2024-08-01T00:00:00Z'', maxMembers = 18,
     adminCount = 1, memberCount = 12, isCommissioner = False, cpi = ''''\<rparr>"

definition json_ok :: "'a \<Rightarrow> 'a response" where
  "json_ok x = \<lparr>status = 200, statusText = ''OK'', body_text = Inr [], body_json = Inr x\<rparr>"




text \<open>
  An outside world in which every call succeeds: the login carries the league list
  \<open>ls\<close>, the leagues endpoint answers \<open>ld\<close>, the budget endpoint the budget \<open>bo\<close> and
  Twilio settles to \<open>tw\<close>. The token expires in 2030; the clock stands in 2023.
\<close>

definition sample_env ::
  "league_entry list option \<Rightarrow> leagues_data \<Rightarrow> int option \<Rightarrow> string + string \<Rightarrow> env" where
  "sample_env ls ld bo tw =
     \<lparr>Date_now = (\<lambda>n. 1700000000000 + int n),
      Date_parse = (\<lambda>s. if s = ''2030-01-01T00:00:00Z'' then Some 1893456000000 else None),
      Number_toString = (\<lambda>m e. []),
      fetch_login = (\<lambda>n. Inr (json_ok
         \<lparr>tkn = ''token'', tknex = ''2030-01-01T00:00:00Z'', srvl = ls\<rparr>)),
      fetch_leagues = (\<lambda>n. Inr (json_ok ld)),
      fetch_budget = (\<lambda>n. Inr (json_ok
         \<lparr>budget_pbas = None, budget_b = bo, budget_bs = None\<rparr>)),
      messages_create = (\<lambda>n. tw)\<rparr>"

text \<open>The state after a login in that world.\<close>

definition logged_in :: "league_entry list \<Rightarrow> call list \<Rightarrow> nat \<Rightarrow> world" where
  "logged_in ls cs n = \<lparr>authToken = Some ''token'', tokenExpiry = Some (Date 1893456000000),
     cachedLeagues = ls, calls = cs, console = [], clock_reads = n\<rparr>"

text \<open>An outside world in which \<^verbatim>\<open>fetch\<close> and Twilio always reject.\<close>

definition env_offline :: env where
  "env_offline =
     (sample_env None (Bare []) None (Inl ''ECONNREFUSED''))
       \<lparr>fetch_login := (\<lambda>n. Inl ''fetch failed''),
        fetch_leagues := (\<lambda>n. Inl ''fetch failed''),
        fetch_budget := (\<lambda>n. Inl ''fetch failed'')\<rparr>"

text \<open>The offline world, except that every login is answered by the response \<open>r\<close>.\<close>

definition answering :: "KickbaseLoginResponse response \<Rightarrow> env" where
  "answering r = env_offline\<lparr>fetch_login := (\<lambda>n. Inr r)\<rparr>"

section \<open>Properties\<close>

subsection \<open>What the token check leaves alone\<close>

lemma isTokenValid_session: "session (snd (isTokenValid env w)) = session w"
  by (simp add: isTokenValid_def session_def Let_def split: option.splits)

lemma isTokenValid_calls: "calls (snd (isTokenValid env w)) = calls w"
  by (simp add: isTokenValid_def Let_def split: option.splits)

lemma isTokenValid_console: "console (snd (isTokenValid env w)) = console w"
  by (simp add: isTokenValid_def Let_def split: option.splits)

subsection \<open>Calls, errors and results of the parts\<close>


lemma log_and_rethrow_fst: "fst (log_and_rethrow l r) = fst r"
  by (simp add: log_and_rethrow_def split: prod.splits sum.splits)

lemma log_and_rethrow_calls: "calls (snd (log_and_rethrow l r)) = calls (snd r)"
  by (simp add: log_and_rethrow_def console_error_def split: prod.splits sum.splits)

lemma log_and_rethrow_session: "session (snd (log_and_rethrow l r)) = session (snd r)"
  by (simp add: log_and_rethrow_def console_error_def session_def split: prod.splits sum.splits)


lemma log_and_rethrow_Inl:
  "log_and_rethrow l r = (Inl e, w') \<longleftrightarrow> (\<exists>w1. r = (Inl e, w1) \<and> w' = console_error l (Err e) w1)"
  by (auto simp add: log_and_rethrow_def split: prod.splits sum.splits)

lemma login_body_calls:
  "calls (snd (login_body env w)) = calls w @ [Fetch_POST ''/v4/user/login'']"
  by (simp add: login_body_def record_call_def console_error_def Let_def
      split: sum.splits option.splits)

lemma loginToKickbase_calls:
  "calls (snd (loginToKickbase env w)) = calls w @ [Fetch_POST ''/v4/user/login'']"
  by (simp add: loginToKickbase_def log_and_rethrow_calls login_body_calls)

lemma ensureAuthenticated_calls:
  "calls (snd (ensureAuthenticated env w)) =
     calls w @ (if fst (isTokenValid env w) then [] else [Fetch_POST ''/v4/user/login''])"
proof (cases "isTokenValid env w")
  case (Pair valid w1)
  then have c: "calls w1 = calls w" using isTokenValid_calls [of env w] by simp
  show ?thesis
  proof (cases valid)
    case True
    with Pair c show ?thesis by (simp add: ensureAuthenticated_def)
  next
    case False
    have "calls (snd (log_and_rethrow ''Authentication failed:'' (loginToKickbase env w1)))
            = calls w @ [Fetch_POST ''/v4/user/login'']"
      by (simp add: log_and_rethrow_calls loginToKickbase_calls c)
    with Pair False show ?thesis
      by (auto simp add: ensureAuthenticated_def split: prod.splits sum.splits)
  qed
qed

lemma ensureAuthenticated_valid:
  assumes "fst (isTokenValid env w)"
  shows "ensureAuthenticated env w = (Inr (), w\<lparr>clock_reads := Suc (clock_reads w)\<rparr>)"
  using assms
  by (auto simp add: ensureAuthenticated_def isTokenValid_def Let_def split: option.splits if_splits)

lemma probe_nonempty: "probe env eps w = (Inr ls, w') \<Longrightarrow> ls \<noteq> []"
  by (induction eps arbitrary: w) (auto simp add: Let_def split: sum.splits if_splits)

lemma probe_calls:
  "\<exists>ts. calls (snd (probe env eps w)) = calls w @ map (\<lambda>(p, t). Fetch_GET p t) ts \<and> set (map fst ts) \<subseteq> set eps"
proof (induction eps arbitrary: w)
  case Nil
  show ?case by simp
next
  case (Cons ep eps)
  let ?w1 = "record_call (Fetch_GET ep (authToken w)) w"
  from Cons [of ?w1] obtain ts where
    ts: "calls (snd (probe env eps ?w1)) = calls ?w1 @ map (\<lambda>(p, t). Fetch_GET p t) ts"
      "set (map fst ts) \<subseteq> set eps" by blast
  have stop: "calls (?w1\<lparr>cachedLeagues := l\<rparr>) = calls w @ map (\<lambda>(p, t). Fetch_GET p t) [(ep, authToken w)]" for l
    by (simp add: record_call_def)
  have go: "calls (snd (probe env eps ?w1)) = calls w @ map (\<lambda>(p, t). Fetch_GET p t) ((ep, authToken w) # ts)"
    using ts by (simp add: record_call_def)
  have "snd (probe env (ep # eps) w) = snd (probe env eps ?w1) \<or> (\<exists>l. snd (probe env (ep # eps) w) = ?w1\<lparr>cachedLeagues := l\<rparr>)"
    by (auto simp add: Let_def split: sum.splits)
  then show ?case
  proof
    assume "snd (probe env (ep # eps) w) = snd (probe env eps ?w1)"
    with go ts(2) show ?thesis
      by (intro exI [of _ "(ep, authToken w) # ts"]) auto
  next
    assume "\<exists>l. snd (probe env (ep # eps) w) = ?w1\<lparr>cachedLeagues := l\<rparr>"
    then obtain l where "snd (probe env (ep # eps) w) = ?w1\<lparr>cachedLeagues := l\<rparr>" ..
    with stop [of l] show ?thesis
      by (intro exI [of _ "[(ep, authToken w)]"]) auto
  qed
qed


lemma getKickbaseLeagues_nonempty:
  assumes "getKickbaseLeagues env w = (Inr ls, w')"
  shows "ls \<noteq> []"
proof (cases "ensureAuthenticated env w")
  case (Pair r w1)
  show ?thesis
  proof (cases r)
    case (Inl e)
    with Pair assms show ?thesis by (simp add: getKickbaseLeagues_def)
  next
    case (Inr u)
    show ?thesis
    proof (cases "cachedLeagues w1 = []")
      case True
      with Pair Inr assms have "probe env possibleEndpoints w1 = (Inr ls, w')"
        by (simp add: getKickbaseLeagues_def)
      then show ?thesis by (rule probe_nonempty)
    next
      case False
      with Pair Inr assms show ?thesis by (auto simp add: getKickbaseLeagues_def)
    qed
  qed
qed


lemma toISOString_Inl: "toISOString d = Inl e \<longleftrightarrow> d = Invalid_Date \<and> e = RangeError ''Invalid time value''"
  by (cases d) auto

lemma login_body_not_defensive: "m \<in> defensive \<Longrightarrow> fst (login_body env w) \<noteq> Inl (Error m)"
  by (auto simp add: login_body_def defensive_def Let_def toISOString_Inl
      split: sum.splits option.splits)

lemma ensureAuthenticated_not_defensive:
  "m \<in> defensive \<Longrightarrow> fst (ensureAuthenticated env w) \<noteq> Inl (Error m)"
  using login_body_not_defensive [of m env "snd (isTokenValid env w)"]
  by (auto simp add: ensureAuthenticated_def loginToKickbase_def log_and_rethrow_def
      split: prod.splits sum.splits)

lemma probe_not_defensive: "m \<in> defensive \<Longrightarrow> fst (probe env eps w) \<noteq> Inl (Error m)"
  by (induction eps arbitrary: w) (auto simp add: defensive_def Let_def split: sum.splits)

lemma getKickbaseLeagues_not_defensive:
  "m \<in> defensive \<Longrightarrow> fst (getKickbaseLeagues env w) \<noteq> Inl (Error m)"
  using ensureAuthenticated_not_defensive [of m env w]
    probe_not_defensive [of m env possibleEndpoints "snd (ensureAuthenticated env w)"]
  by (auto simp add: getKickbaseLeagues_def split: prod.splits sum.splits)

lemma first_league_None: "ls \<noteq> [] \<Longrightarrow> first_league ls = None \<longleftrightarrow> hd ls = None"
  by (cases ls rule: first_league.cases) simp_all

text \<open>
  The error of \<^verbatim>\<open>getKickbaseBudget\<close> once the leagues are there: none when the first
  entry is a league and the budget arrives.
\<close>

lemma budget_body_after_leagues:
  assumes "ensureAuthenticated env w = (Inr u, w1)"
    and "getKickbaseLeagues env w1 = (Inr ls, w2)"
  shows "fst (budget_body env w) \<noteq> Inl (Error ''No leagues found for user'') \<and>
         (fst (budget_body env w) = Inl (Error ''No primary league found'') \<longleftrightarrow> hd ls = None)"
proof -
  from assms(2) have ne: "ls \<noteq> []" by (rule getKickbaseLeagues_nonempty)
  show ?thesis
  proof (cases "first_league ls")
    case None
    with ne have "hd ls = None" by (simp add: first_league_None)
    with assms ne None show ?thesis
      by (simp add: budget_body_def)
  next
    case (Some l)
    with ne have "hd ls \<noteq> None" by (simp add: first_league_None [symmetric])
    with assms ne Some show ?thesis
      by (auto simp add: budget_body_def Let_def split: sum.splits)
  qed
qed

lemma budget_body_not_empty_error:
  "fst (budget_body env w) \<noteq> Inl (Error ''No leagues found for user'')"
proof -
  have d: "''No leagues found for user'' \<in> defensive" by (simp add: defensive_def)
  obtain r w1 where auth: "ensureAuthenticated env w = (r, w1)"
    by (cases "ensureAuthenticated env w")
  show ?thesis
  proof (cases r)
    case (Inl e)
    with auth ensureAuthenticated_not_defensive [OF d, of env w] show ?thesis
      by (simp add: budget_body_def)
  next
    case (Inr u)
    obtain r2 w2 where leagues: "getKickbaseLeagues env w1 = (r2, w2)"
      by (cases "getKickbaseLeagues env w1")
    show ?thesis
    proof (cases r2)
      case (Inl e)
      with auth Inr leagues getKickbaseLeagues_not_defensive [OF d, of env w1]
      show ?thesis by (simp add: budget_body_def)
    next
      case found: (Inr ls)
      with auth Inr leagues budget_body_after_leagues [of env w u w1 ls w2]
      show ?thesis by simp
    qed
  qed
qed

lemma budget_body_no_primary:
  "fst (budget_body env w) = Inl (Error ''No primary league found'') \<longleftrightarrow>
     (\<exists>u w1 ls w2. ensureAuthenticated env w = (Inr u, w1) \<and>
        getKickbaseLeagues env w1 = (Inr ls, w2) \<and> hd ls = None)"
proof -
  have d: "''No primary league found'' \<in> defensive" by (simp add: defensive_def)
  obtain r w1 where auth: "ensureAuthenticated env w = (r, w1)"
    by (cases "ensureAuthenticated env w")
  show ?thesis
  proof (cases r)
    case (Inl e)
    with auth ensureAuthenticated_not_defensive [OF d, of env w] show ?thesis
      by (simp add: budget_body_def)
  next
    case (Inr u)
    obtain r2 w2 where leagues: "getKickbaseLeagues env w1 = (r2, w2)"
      by (cases "getKickbaseLeagues env w1")
    show ?thesis
    proof (cases r2)
      case (Inl e)
      with auth Inr leagues getKickbaseLeagues_not_defensive [OF d, of env w1]
      show ?thesis by (simp add: budget_body_def)
    next
      case found: (Inr ls)
      with auth Inr leagues budget_body_after_leagues [of env w u w1 ls w2]
      show ?thesis by simp
    qed
  qed
qed

lemma ensureAuthenticated_extends:
  "\<exists>cs. calls (snd (ensureAuthenticated env w)) = calls w @ cs \<and> list_all is_discovery cs"
  by (simp add: ensureAuthenticated_calls)

lemma probe_extends:
  "\<exists>cs. calls (snd (probe env eps w)) = calls w @ cs \<and>
        list_all (\<lambda>c. \<exists>p t. c = Fetch_GET p t \<and> p \<in> set eps) cs"
proof -
  from probe_calls [of env eps w] obtain ts where
    ts: "calls (snd (probe env eps w)) = calls w @ map (\<lambda>(p, t). Fetch_GET p t) ts"
      "set (map fst ts) \<subseteq> set eps" by blast
  have "list_all (\<lambda>c. \<exists>p t. c = Fetch_GET p t \<and> p \<in> set eps) (map (\<lambda>(p, t). Fetch_GET p t) ts)"
    using ts(2) by (auto simp add: list_all_iff)
  with ts(1) show ?thesis by blast
qed

lemma getKickbaseLeagues_extends:
  "\<exists>cs. calls (snd (getKickbaseLeagues env w)) = calls w @ cs \<and> list_all is_discovery cs"
proof -
  obtain r w1 where auth: "ensureAuthenticated env w = (r, w1)" by (cases "ensureAuthenticated env w")
  with ensureAuthenticated_extends [of env w] obtain cs where
    cs: "calls w1 = calls w @ cs" "list_all is_discovery cs" by auto
  from probe_extends [of env possibleEndpoints w1] obtain ds where
    ds: "calls (snd (probe env possibleEndpoints w1)) = calls w1 @ ds"
      "list_all (\<lambda>c. \<exists>p t. c = Fetch_GET p t \<and> p \<in> set possibleEndpoints) ds" by blast
  from ds(2) have "list_all is_discovery ds" by (auto simp add: list_all_iff)
  with cs ds(1) have far: "calls (snd (probe env possibleEndpoints w1)) = calls w @ (cs @ ds)"
    "list_all is_discovery (cs @ ds)" by simp_all
  have "snd (getKickbaseLeagues env w) = w1 \<or>
        snd (getKickbaseLeagues env w) = snd (probe env possibleEndpoints w1)"
    using auth by (auto simp add: getKickbaseLeagues_def split: sum.splits)
  with cs far show ?thesis by metis
qed

lemma budget_body_extends:
  "\<exists>cs. calls (snd (budget_body env w)) = calls w @ cs \<and> list_all (\<lambda>c. \<not> is_notification c) cs"
proof -
  have quiet: "list_all (\<lambda>c. \<not> is_notification c) cs" if "list_all is_discovery cs" for cs
    using that by (induction cs) (auto elim: is_discovery.elims)
  obtain r w1 where auth: "ensureAuthenticated env w = (r, w1)" by (cases "ensureAuthenticated env w")
  with ensureAuthenticated_extends [of env w] obtain cs where
    cs: "calls w1 = calls w @ cs" "list_all is_discovery cs" by auto
  obtain r2 w2 where leagues: "getKickbaseLeagues env w1 = (r2, w2)"
    by (cases "getKickbaseLeagues env w1")
  with getKickbaseLeagues_extends [of env w1] obtain ds where
    ds: "calls w2 = calls w1 @ ds" "list_all is_discovery ds" by auto
  have c1: "calls w1 = calls w @ cs" "list_all (\<lambda>c. \<not> is_notification c) cs"
    using cs quiet by simp_all
  have c2: "calls w2 = calls w @ (cs @ ds)" "list_all (\<lambda>c. \<not> is_notification c) (cs @ ds)"
    using cs ds quiet by simp_all
  have c3: "calls (record_call (Fetch_GET p t) w2) = calls w @ (cs @ ds @ [Fetch_GET p t])"
    "list_all (\<lambda>c. \<not> is_notification c) (cs @ ds @ [Fetch_GET p t])" for p t
    using cs ds quiet by (simp_all add: record_call_def)
  have "snd (budget_body env w) = w1 \<or> snd (budget_body env w) = w2 \<or>
        (\<exists>p t. snd (budget_body env w) = record_call (Fetch_GET p t) w2)"
    using auth leagues
    by (auto simp add: budget_body_def Let_def split: sum.splits option.splits)
  with c1 c2 c3 show ?thesis by metis
qed

lemma getKickbaseBudget_extends:
  "\<exists>cs. calls (snd (getKickbaseBudget env w)) = calls w @ cs \<and> list_all (\<lambda>c. \<not> is_notification c) cs"
  using budget_body_extends [of env w]
  by (simp add: getKickbaseBudget_def log_and_rethrow_calls)

lemma sendWhatsappAlert_result:
  "fst (sendWhatsappAlert env b w) = Inr () \<and>
   calls (snd (sendWhatsappAlert env b w)) = calls w @ [Messages_create (contentVariables env b)] \<and>
   session (snd (sendWhatsappAlert env b w)) = session w"
  by (simp add: sendWhatsappAlert_def record_call_def console_error_def session_def Let_def
      split: sum.splits)

subsection \<open>The run after the budget is known\<close>
lemma runCheck_after_budget:
  assumes "getKickbaseBudget env w = (Inr b, w1)"
  shows "runCheck env w =
           (if b < KICKBASE_BUDGET_THRESHOLD then (Inr (), snd (sendWhatsappAlert env b w1))
            else (Inr (), w1))"
  using assms sendWhatsappAlert_result [of env b w1]
  by (cases "sendWhatsappAlert env b w1") (auto simp add: runCheck_def check_body_def)

lemma runCheck_after_failure:
  assumes "getKickbaseBudget env w = (Inl e, w1)"
  shows "runCheck env w = (Inr (), console_error ''Fatal error during budget check:'' (Err e) w1)"
  using assms by (simp add: runCheck_def check_body_def)


lemma discovery_not_notification: "is_discovery c \<Longrightarrow> \<not> is_notification c"
  by (cases c) simp_all

lemma budget_path_not_discovery: "\<not> is_discovery (Fetch_GET (budget_path lid) t)"
  by (simp add: budget_path_def possibleEndpoints_def)

subsection \<open>Logins that carry no league list\<close>

lemma loginToKickbase_without_leagues:
  assumes "login_without_leagues env (length (calls w))"
  shows "(\<exists>d. fst (loginToKickbase env w) = Inr d) \<and>
         cachedLeagues (snd (loginToKickbase env w)) = cachedLeagues w"
proof -
  from assms obtain r d where
    r: "fetch_login env (length (calls w)) = Inr r" "ok r" "body_json r = Inr d"
      "srvl d = None" "new_Date env (tknex d) \<noteq> Invalid_Date"
    by (auto simp add: login_without_leagues_def split: sum.splits)
  from r(5) obtain t where "new_Date env (tknex d) = Date t"
    by (cases "new_Date env (tknex d)") auto
  with r show ?thesis
    by (simp add: loginToKickbase_def login_body_def log_and_rethrow_def record_call_def Let_def)
qed

lemma ensureAuthenticated_without_leagues:
  assumes "\<forall>n. login_without_leagues env n"
  shows "fst (ensureAuthenticated env w) = Inr () \<and>
         cachedLeagues (snd (ensureAuthenticated env w)) = cachedLeagues w"
proof (cases "isTokenValid env w")
  case (Pair valid w1)
  then have same: "cachedLeagues w1 = cachedLeagues w"
    using isTokenValid_session [of env w] by (simp add: session_def)
  from assms have "login_without_leagues env (length (calls w1))" ..
  from loginToKickbase_without_leagues [OF this] same Pair show ?thesis
    by (cases "loginToKickbase env w1")
      (auto simp add: ensureAuthenticated_def log_and_rethrow_def split: sum.splits)
qed

lemma probe_wrapped_empty:
  assumes "\<forall>n. leagues_wrapped_empty env n"
  shows "fst (probe env eps w) = Inl (Error ''Could not fetch leagues from any known endpoint'')"
proof (induction eps arbitrary: w)
  case Nil
  show ?case by simp
next
  case (Cons ep eps)
  from assms have "leagues_wrapped_empty env (length (calls w))" ..
  then obtain r where "fetch_leagues env (length (calls w)) = Inr r" "ok r"
    "body_json r = Inr (Wrapped (Some []))"
    by (auto simp add: leagues_wrapped_empty_def split: sum.splits)
  with Cons show ?case by (simp add: Let_def)
qed

subsection \<open>The stored expiry is a Date\<close>

text \<open>
  The expiry is empty at the start and written only by \<^verbatim>\<open>new Date\<close>, so its time
  value, when it has one, stays within the range of \<^verbatim>\<open>TimeClip\<close> through a whole run.
\<close>

lemma new_Date_valid: "valid_Date (Some (new_Date env s))"
  by (simp add: new_Date_def TimeClip_def valid_time_def split: option.splits)

lemma log_and_rethrow_expiry: "tokenExpiry (snd (log_and_rethrow l r)) = tokenExpiry (snd r)"
  by (simp add: log_and_rethrow_def console_error_def split: prod.splits sum.splits)

lemma loginToKickbase_expiry:
  "valid_Date (tokenExpiry w) \<Longrightarrow> valid_Date (tokenExpiry (snd (loginToKickbase env w)))"
  by (simp add: loginToKickbase_def log_and_rethrow_expiry login_body_def record_call_def
      console_error_def new_Date_valid Let_def split: sum.splits option.splits)

lemma ensureAuthenticated_expiry:
  assumes "valid_Date (tokenExpiry w)"
  shows "valid_Date (tokenExpiry (snd (ensureAuthenticated env w)))"
proof -
  obtain valid w1 where v: "isTokenValid env w = (valid, w1)" by (cases "isTokenValid env w")
  with isTokenValid_session [of env w] assms have w1: "valid_Date (tokenExpiry w1)"
    by (simp add: session_def)
  have "snd (ensureAuthenticated env w) = w1 \<or>
        snd (ensureAuthenticated env w) =
          snd (log_and_rethrow ''Authentication failed:'' (loginToKickbase env w1))"
    using v by (auto simp add: ensureAuthenticated_def split: prod.splits sum.splits)
  with w1 loginToKickbase_expiry [OF w1, of env] show ?thesis
    by (auto simp add: log_and_rethrow_expiry)
qed

lemma probe_expiry: "tokenExpiry (snd (probe env eps w)) = tokenExpiry w"
  by (induction eps arbitrary: w) (simp_all add: record_call_def Let_def split: sum.splits)

lemma getKickbaseLeagues_expiry:
  assumes "valid_Date (tokenExpiry w)"
  shows "valid_Date (tokenExpiry (snd (getKickbaseLeagues env w)))"
  using ensureAuthenticated_expiry [OF assms, of env]
  by (auto simp add: getKickbaseLeagues_def probe_expiry split: prod.splits sum.splits)

lemma getKickbaseBudget_expiry:
  assumes "valid_Date (tokenExpiry w)"
  shows "valid_Date (tokenExpiry (snd (getKickbaseBudget env w)))"
proof -
  obtain r1 w1 where a: "ensureAuthenticated env w = (r1, w1)"
    by (cases "ensureAuthenticated env w")
  with ensureAuthenticated_expiry [OF assms, of env] have w1: "valid_Date (tokenExpiry w1)" by simp
  obtain r2 w2 where l: "getKickbaseLeagues env w1 = (r2, w2)"
    by (cases "getKickbaseLeagues env w1")
  with getKickbaseLeagues_expiry [OF w1, of env] have w2: "valid_Date (tokenExpiry w2)" by simp
  have "tokenExpiry (snd (budget_body env w)) = tokenExpiry w1 \<or>
        tokenExpiry (snd (budget_body env w)) = tokenExpiry w2"
    using a l by (auto simp add: budget_body_def record_call_def Let_def
        split: sum.splits option.splits)
  with w1 w2 show ?thesis
    by (auto simp add: getKickbaseBudget_def log_and_rethrow_expiry)
qed

lemma runCheck_expiry:
  assumes "valid_Date (tokenExpiry w)"
  shows "valid_Date (tokenExpiry (snd (runCheck env w)))"
proof -
  obtain r1 w1 where b: "getKickbaseBudget env w = (r1, w1)"
    by (cases "getKickbaseBudget env w")
  with getKickbaseBudget_expiry [OF assms, of env] have "valid_Date (tokenExpiry w1)" by simp
  with b show ?thesis
    by (simp add: runCheck_def check_body_def sendWhatsappAlert_def record_call_def
        console_error_def Let_def split: sum.splits)
qed

lemma initial_expiry: "valid_Date (tokenExpiry initial)"
  by (simp add: initial_def)

subsection \<open>The quotient is the nearest double\<close>





text \<open>\<open>nearest_hundredths\<close> rounds \<open>100 * m * 2 ^ e\<close> to the nearest integer, half up.\<close>

lemma nearest_hundredths_nearest:
  assumes "e < 0"
  shows "2 * 2 ^ nat (- e) * nearest_hundredths m e \<le> 200 * m + 2 ^ nat (- e) \<and>
         200 * m + 2 ^ nat (- e) < 2 * 2 ^ nat (- e) * (nearest_hundredths m e + 1)"
proof -
  define K :: nat where "K = 2 * 2 ^ nat (- e)"
  have K: "0 < K" by (simp add: K_def)
  have n: "nearest_hundredths m e = (200 * m + 2 ^ nat (- e)) div K"
    using assms by (simp add: nearest_hundredths_def K_def)
  have "K * ((200 * m + 2 ^ nat (- e)) div K) \<le> 200 * m + 2 ^ nat (- e)" by simp
  moreover have "200 * m + 2 ^ nat (- e) < K * ((200 * m + 2 ^ nat (- e)) div K + 1)"
    using K by (simp add: dividend_less_times_div)
  ultimately show ?thesis unfolding n K_def by simp
qed

subsection \<open>Two decimals of a million\<close>










subsection \<open>Evaluating numbers and the sample worlds\<close>

lemmas Number_eval = millions_def Number_div_def chosen_exponent_def scaled_def bitlen.simps
  toFixed2_def
  nearest_hundredths_def at_least_1e21_def decimal.simps digit_def Let_def


lemma millions_100: "millions env (- 100) = ''-0.00M''"
  by (simp add: Number_eval)

lemma millions_1: "millions env (- 1) = ''-0.00M''"
  by (simp add: Number_eval)

text \<open>
  The quotient is the double, not the exact fraction: 1.005 and 1.255 lie just below
  the decimal they are written as and round down, 8.345 lies just above and rounds up.
\<close>

lemma millions_ties:
  "millions env 1005000 = ''1.00M''" "millions env 1255000 = ''1.25M''"
  "millions env 8345000 = ''8.35M''" "millions env 5000000 = ''5.00M''"
  by (simp_all add: Number_eval)

lemma sample_login:
  "ensureAuthenticated (sample_env ls ld bo tw) initial =
     (Inr (), logged_in (case ls of None \<Rightarrow> [] | Some l \<Rightarrow> l) [Fetch_POST ''/v4/user/login''] 0)"
  by (simp add: ensureAuthenticated_def isTokenValid_def
      loginToKickbase_def login_body_def log_and_rethrow_def record_call_def new_Date_def
      TimeClip_def sample_env_def json_ok_def ok_def initial_def logged_in_def Let_def
      split: option.splits)

lemma sample_valid: "n < 1000 \<Longrightarrow> fst (isTokenValid (sample_env ls ld bo tw) (logged_in cl cs n))"
  by (simp add: isTokenValid_def TimeClip_def sample_env_def logged_in_def Let_def)

lemma sample_budget:
  "getKickbaseBudget (sample_env (Some [Some league_1]) ld bo tw) initial =
     (Inr (or_zero bo),
      logged_in [Some league_1]
        [Fetch_POST ''/v4/user/login'', Fetch_GET ''/v4/leagues/42/me/budget'' (Some ''token'')] 1)"
  by (simp add: getKickbaseBudget_def budget_body_def getKickbaseLeagues_def
      ensureAuthenticated_def isTokenValid_def
      loginToKickbase_def login_body_def log_and_rethrow_def record_call_def new_Date_def
      TimeClip_def sample_env_def json_ok_def ok_def initial_def Let_def budget_path_def
      league_1_def logged_in_def)

lemma offline_login:
  "ensureAuthenticated env_offline initial =
     (Inl (Rejection ''fetch failed''),
      initial\<lparr>calls := [Fetch_POST ''/v4/user/login''],
        console := [(''Failed to login to Kickbase:'', Err (Rejection ''fetch failed'')),
                    (''Authentication failed:'', Err (Rejection ''fetch failed''))]\<rparr>)"
  by (simp add: ensureAuthenticated_def isTokenValid_def loginToKickbase_def login_body_def
      log_and_rethrow_def record_call_def console_error_def env_offline_def sample_env_def
      initial_def Let_def)

lemma offline_budget:
  "getKickbaseBudget env_offline initial =
     (Inl (Rejection ''fetch failed''),
      initial\<lparr>calls := [Fetch_POST ''/v4/user/login''],
        console := [(''Failed to login to Kickbase:'', Err (Rejection ''fetch failed'')),
                    (''Authentication failed:'', Err (Rejection ''fetch failed'')),
                    (''Failed to fetch budget:'', Err (Rejection ''fetch failed''))]\<rparr>)"
  by (simp add: getKickbaseBudget_def budget_body_def offline_login log_and_rethrow_def
      console_error_def)

section \<open>The claims\<close>

text \<open>
  C1. The alert decision is a strict comparison with the threshold, which is zero: once
  the budget \<open>b\<close> is resolved, the run makes a notification call iff \<open>b\<close> is below the
  threshold, and that call is the only one it adds. So budget 0 sends nothing and
  budget -1 sends the alert.
\<close>

theorem runCheck_alert_iff:
  assumes "getKickbaseBudget env w = (Inr b, w1)"
  shows "KICKBASE_BUDGET_THRESHOLD = 0 \<and>
         (filter is_notification (calls_since w (snd (runCheck env w))) \<noteq> []
            \<longleftrightarrow> b < KICKBASE_BUDGET_THRESHOLD) \<and>
         calls (snd (runCheck env w)) =
           calls w1 @ (if b < KICKBASE_BUDGET_THRESHOLD
                       then [Messages_create (contentVariables env b)] else [])"
proof -
  from getKickbaseBudget_extends [of env w] assms obtain cs where
    cs: "calls w1 = calls w @ cs" "list_all (\<lambda>c. \<not> is_notification c) cs" by auto
  then have none: "filter is_notification cs = []"
    by (simp add: list_all_iff filter_empty_conv)
  have run: "calls (snd (runCheck env w)) =
      calls w1 @ (if b < KICKBASE_BUDGET_THRESHOLD
                  then [Messages_create (contentVariables env b)] else [])"
    using runCheck_after_budget [OF assms] sendWhatsappAlert_result [of env b w1] by simp
  with cs none show ?thesis
    by (simp add: calls_since_def KICKBASE_BUDGET_THRESHOLD_def)
qed

text \<open>The two boundary runs: budget 0 sends nothing, budget -1 sends the alert.\<close>

theorem runCheck_alert_iff_witness:
  "calls (snd (runCheck (sample_env (Some [Some league_1]) (Bare []) (Some 0) (Inr ''SM1'')) initial))
     = [Fetch_POST ''/v4/user/login'', Fetch_GET ''/v4/leagues/42/me/budget'' (Some ''token'')] \<and>
   calls (snd (runCheck (sample_env (Some [Some league_1]) (Bare []) (Some (- 1)) (Inr ''SM1'')) initial))
     = [Fetch_POST ''/v4/user/login'', Fetch_GET ''/v4/leagues/42/me/budget'' (Some ''token''),
        Messages_create [(''1'', ''-0.00M''), (''2'', ''20:30'')]]"
proof -
  let ?w1 = "logged_in [Some league_1]
        [Fetch_POST ''/v4/user/login'', Fetch_GET ''/v4/leagues/42/me/budget'' (Some ''token'')] 1"
  have zero: "getKickbaseBudget (sample_env (Some [Some league_1]) (Bare []) (Some 0) (Inr ''SM1''))
      initial = (Inr 0, ?w1)"
    using sample_budget [of "Bare []" "Some 0" "Inr ''SM1''"] by simp
  have minus: "getKickbaseBudget (sample_env (Some [Some league_1]) (Bare []) (Some (- 1)) (Inr ''SM1''))
      initial = (Inr (- 1), ?w1)"
    using sample_budget [of "Bare []" "Some (- 1)" "Inr ''SM1''"] by simp
  from runCheck_alert_iff [OF zero] runCheck_alert_iff [OF minus] show ?thesis
    by (simp add: logged_in_def contentVariables_def millions_1)
qed

text \<open>
  C2, as stated: the session is judged valid iff the token is present and the expiry is
  strictly later than now plus five minutes. It fails on a token that is present and
  empty: \<^verbatim>\<open>!authToken\<close> holds of the empty string, and the session is judged invalid
  whatever the expiry.
\<close>

theorem isTokenValid_empty_token_counterexample:
  "fst (isTokenValid env_offline
          (initial\<lparr>authToken := Some [], tokenExpiry := Some (Date 1893456000000)\<rparr>))
   \<noteq> spec_isValid (Some []) (Some (Date 1893456000000)) (Date_now env_offline 0)"
  by (simp add: isTokenValid_def spec_isValid_def env_offline_def sample_env_def initial_def)

text \<open>
  C2, amended: the session is judged valid iff the token is present and not the empty
  string, and the expiry is strictly later than now plus five minutes. The verdict
  depends on nothing but the token, the expiry and the clock, and the check leaves the
  session as it is. (The clock gives a time value, and the stored expiry is a
  \<^verbatim>\<open>Date\<close>; both are within 8.64e15 ms of the epoch.)
\<close>

theorem isTokenValid_iff:
  assumes "valid_time (Date_now env (clock_reads w))" and "valid_Date (tokenExpiry w)"
  shows "fst (isTokenValid env w) =
           (authToken w \<noteq> None \<and> authToken w \<noteq> Some [] \<and>
            later_than (tokenExpiry w) (Date_now env (clock_reads w) + 5 * 60 * 1000))
         \<and> session (snd (isTokenValid env w)) = session w"
proof -
  have "fst (isTokenValid env w) =
          (authToken w \<noteq> None \<and> authToken w \<noteq> Some [] \<and>
           later_than (tokenExpiry w) (Date_now env (clock_reads w) + 5 * 60 * 1000))"
  proof (cases "authToken w")
    case None
    then show ?thesis by (simp add: isTokenValid_def)
  next
    case (Some tok)
    show ?thesis
    proof (cases "tokenExpiry w")
      case None
      with Some show ?thesis by (simp add: isTokenValid_def)
    next
      case expiry: (Some d)
      show ?thesis
      proof (cases d)
        case (Date t)
        with assms expiry have "\<bar>t\<bar> \<le> 8640000000000000"
          and "\<bar>Date_now env (clock_reads w)\<bar> \<le> 8640000000000000"
          by (simp_all add: valid_time_def)
        with Some expiry Date show ?thesis
          by (auto simp add: isTokenValid_def TimeClip_def Let_def)
      next
        case Invalid_Date
        with Some expiry show ?thesis by (simp add: isTokenValid_def Let_def)
      qed
    qed
  qed
  then show ?thesis by (simp add: isTokenValid_session)
qed

theorem isTokenValid_iff_witness:
  "valid_time (Date_now env_offline 0) \<and> valid_Date (Some (Date 1893456000000)) \<and>
   fst (isTokenValid env_offline
          (initial\<lparr>authToken := Some ''token'', tokenExpiry := Some (Date 1893456000000)\<rparr>))"
  using isTokenValid_iff [of env_offline
      "initial\<lparr>authToken := Some ''token'', tokenExpiry := Some (Date 1893456000000)\<rparr>"]
  by (simp add: valid_time_def env_offline_def sample_env_def initial_def)

text \<open>
  C3, as stated: in every state with a non-empty league cache, \<^verbatim>\<open>getKickbaseLeagues\<close>
  makes no network call. It fails when the cache is filled and the token has expired:
  \<^verbatim>\<open>ensureAuthenticated\<close> runs first and logs in.
\<close>

theorem getKickbaseLeagues_expired_counterexample:
  "cachedLeagues ((logged_in [Some league_1] [] 0)\<lparr>tokenExpiry := Some (Date 1600000000000)\<rparr>) \<noteq> [] \<and>
   calls_since ((logged_in [Some league_1] [] 0)\<lparr>tokenExpiry := Some (Date 1600000000000)\<rparr>)
     (snd (getKickbaseLeagues (sample_env None (Bare []) None (Inr ''SM1''))
        ((logged_in [Some league_1] [] 0)\<lparr>tokenExpiry := Some (Date 1600000000000)\<rparr>)))
     = [Fetch_POST ''/v4/user/login'']"
  by (simp add: getKickbaseLeagues_def ensureAuthenticated_def isTokenValid_def
      loginToKickbase_def login_body_def log_and_rethrow_def record_call_def new_Date_def
      TimeClip_def calls_since_def sample_env_def json_ok_def ok_def logged_in_def Let_def)

text \<open>
  C3, amended: in every state in which the league cache is non-empty and the session
  is valid, \<^verbatim>\<open>getKickbaseLeagues\<close> makes no network call and returns the cached
  sequence unchanged; the session and the cache stay as they are.
\<close>

theorem getKickbaseLeagues_cached:
  assumes "cachedLeagues w \<noteq> []" and "fst (isTokenValid env w)"
  shows "fst (getKickbaseLeagues env w) = Inr (cachedLeagues w) \<and>
         calls (snd (getKickbaseLeagues env w)) = calls w \<and>
         session (snd (getKickbaseLeagues env w)) = session w"
  using assms ensureAuthenticated_valid [OF assms(2)]
  by (simp add: getKickbaseLeagues_def session_def)

theorem getKickbaseLeagues_cached_witness:
  "cachedLeagues (logged_in [Some league_1] [] 0) \<noteq> [] \<and>
   fst (isTokenValid (sample_env None (Bare []) None (Inr ''SM1'')) (logged_in [Some league_1] [] 0)) \<and>
   fst (getKickbaseLeagues (sample_env None (Bare []) None (Inr ''SM1''))
          (logged_in [Some league_1] [] 0)) = Inr [Some league_1] \<and>
   calls (snd (getKickbaseLeagues (sample_env None (Bare []) None (Inr ''SM1''))
          (logged_in [Some league_1] [] 0))) = []"
proof -
  have a: "cachedLeagues (logged_in [Some league_1] [] 0) \<noteq> []" by (simp add: logged_in_def)
  have b: "fst (isTokenValid (sample_env None (Bare []) None (Inr ''SM1''))
      (logged_in [Some league_1] [] 0))" by (rule sample_valid) simp
  from getKickbaseLeagues_cached [OF a b] a b show ?thesis by (simp add: logged_in_def)
qed

text \<open>
  C4. When a first call of \<^verbatim>\<open>ensureAuthenticated\<close> has logged in and the session is
  still valid at the second call, the second call returns without any effect: the two
  calls together made exactly one network call, the login, and the second left the
  session, the cache, the call history and the error log as they were.
\<close>

theorem ensureAuthenticated_twice:
  assumes "\<not> fst (isTokenValid env w)"
    and "ensureAuthenticated env w = (Inr (), w1)"
    and "fst (isTokenValid env w1)"
  shows "ensureAuthenticated env w1 = (Inr (), w1\<lparr>clock_reads := Suc (clock_reads w1)\<rparr>) \<and>
         calls_since w (snd (ensureAuthenticated env w1)) = [Fetch_POST ''/v4/user/login''] \<and>
         calls (snd (ensureAuthenticated env w1)) = calls w1 \<and>
         session (snd (ensureAuthenticated env w1)) = session w1 \<and>
         console (snd (ensureAuthenticated env w1)) = console w1"
proof -
  have second: "ensureAuthenticated env w1 = (Inr (), w1\<lparr>clock_reads := Suc (clock_reads w1)\<rparr>)"
    using assms(3) by (rule ensureAuthenticated_valid)
  have "calls w1 = calls w @ [Fetch_POST ''/v4/user/login'']"
    using ensureAuthenticated_calls [of env w] assms(1,2) by simp
  with second show ?thesis by (simp add: calls_since_def session_def)
qed

theorem ensureAuthenticated_twice_witness:
  "\<not> fst (isTokenValid (sample_env None (Bare []) None (Inr ''SM1'')) initial) \<and>
   ensureAuthenticated (sample_env None (Bare []) None (Inr ''SM1'')) initial =
     (Inr (), logged_in [] [Fetch_POST ''/v4/user/login''] 0) \<and>
   ensureAuthenticated (sample_env None (Bare []) None (Inr ''SM1''))
       (logged_in [] [Fetch_POST ''/v4/user/login''] 0) =
     (Inr (), logged_in [] [Fetch_POST ''/v4/user/login''] 1)"
proof -
  let ?env = "sample_env None (Bare []) None (Inr ''SM1'')"
  have a: "\<not> fst (isTokenValid ?env initial)"
    by (simp add: isTokenValid_def initial_def)
  have b: "ensureAuthenticated ?env initial = (Inr (), logged_in [] [Fetch_POST ''/v4/user/login''] 0)"
    using sample_login [of None] by simp
  show ?thesis
    using ensureAuthenticated_twice [OF a b sample_valid] a b by (simp add: logged_in_def)
qed





lemma login_refusal_None:
  "login_refusal env n = None \<longleftrightarrow>
     (\<exists>r d. fetch_login env n = Inr r \<and> ok r \<and> body_json r = Inr d)"
  by (auto simp add: login_refusal_def split: sum.splits)

lemma fetch_login_answering [simp]: "fetch_login (answering r) n = Inr r"
  by (simp add: answering_def)






text \<open>
  C6. When every login succeeds without a league list and the leagues endpoint
  answers \<^verbatim>\<open>{leagues: []}\<close>, then from an empty cache \<^verbatim>\<open>getKickbaseBudget\<close> fails
  with the error of league resolution, "Could not fetch leagues from any known
  endpoint"; the calls made are logins and reads of the leagues endpoint, none goes to
  a budget endpoint, and the run ends without a notification call.
\<close>

theorem no_leagues_anywhere:
  assumes "cachedLeagues w = []"
    and "\<forall>n. login_without_leagues env n"
    and "\<forall>n. leagues_wrapped_empty env n"
  shows "fst (getKickbaseBudget env w) =
           Inl (Error ''Could not fetch leagues from any known endpoint'') \<and>
         list_all is_discovery (calls_since w (snd (getKickbaseBudget env w))) \<and>
         (\<forall>lid t. Fetch_GET (budget_path lid) t
            \<notin> set (calls_since w (snd (getKickbaseBudget env w)))) \<and>
         fst (runCheck env w) = Inr () \<and>
         filter is_notification (calls_since w (snd (runCheck env w))) = []"
proof -
  let ?none = "Error ''Could not fetch leagues from any known endpoint''"
  obtain r1 w1 where auth: "ensureAuthenticated env w = (r1, w1)"
    by (cases "ensureAuthenticated env w")
  with ensureAuthenticated_without_leagues [OF assms(2), of w] assms(1)
  have w1: "r1 = Inr ()" "cachedLeagues w1 = []" by simp_all
  obtain r2 w2 where auth2: "ensureAuthenticated env w1 = (r2, w2)"
    by (cases "ensureAuthenticated env w1")
  with ensureAuthenticated_without_leagues [OF assms(2), of w1] w1
  have w2: "r2 = Inr ()" "cachedLeagues w2 = []" by simp_all
  obtain r3 w3 where probe: "probe env possibleEndpoints w2 = (r3, w3)"
    by (cases "probe env possibleEndpoints w2")
  with probe_wrapped_empty [OF assms(3), of possibleEndpoints w2]
  have r3: "r3 = Inl ?none" by simp
  have leagues: "getKickbaseLeagues env w1 = (Inl ?none, w3)"
    using auth2 w2 probe r3 by (simp add: getKickbaseLeagues_def)
  have body: "budget_body env w = (Inl ?none, w3)"
    using auth w1 leagues by (simp add: budget_body_def)
  then have budget: "getKickbaseBudget env w = (Inl ?none, console_error ''Failed to fetch budget:'' (Err ?none) w3)"
    by (simp add: getKickbaseBudget_def log_and_rethrow_def)
  from ensureAuthenticated_extends [of env w] auth obtain cs where
    cs: "calls w1 = calls w @ cs" "list_all is_discovery cs" by auto
  from getKickbaseLeagues_extends [of env w1] leagues obtain ds where
    ds: "calls w3 = calls w1 @ ds" "list_all is_discovery ds" by auto
  have since: "calls_since w (snd (getKickbaseBudget env w)) = cs @ ds"
    using budget cs ds by (simp add: calls_since_def console_error_def)
  have disc: "list_all is_discovery (cs @ ds)" using cs ds by simp
  have "Fetch_GET (budget_path lid) t \<notin> set (cs @ ds)" for lid t
    using disc budget_path_not_discovery [of lid t] unfolding list_all_iff by blast
  moreover have "filter is_notification (cs @ ds) = []"
    using disc by (auto simp add: list_all_iff filter_empty_conv dest: discovery_not_notification)
  ultimately show ?thesis
    using budget since disc runCheck_after_failure [OF budget]
    by (simp add: calls_since_def console_error_def)
qed

theorem no_leagues_anywhere_witness:
  "cachedLeagues initial = [] \<and>
   fst (getKickbaseBudget (sample_env None (Wrapped (Some [])) None (Inr ''SM1'')) initial) =
     Inl (Error ''Could not fetch leagues from any known endpoint'') \<and>
   calls (snd (runCheck (sample_env None (Wrapped (Some [])) None (Inr ''SM1'')) initial)) =
     [Fetch_POST ''/v4/user/login'', Fetch_GET ''/v4/leagues'' (Some ''token'')]"
proof -
  let ?env = "sample_env None (Wrapped (Some [])) None (Inr ''SM1'')"
  have a: "cachedLeagues initial = []" by (simp add: initial_def)
  have b: "\<forall>n. login_without_leagues ?env n"
    by (simp add: login_without_leagues_def sample_env_def json_ok_def ok_def new_Date_def
        TimeClip_def)
  have c: "\<forall>n. leagues_wrapped_empty ?env n"
    by (simp add: leagues_wrapped_empty_def sample_env_def json_ok_def ok_def)
  have run: "calls (snd (runCheck ?env initial)) =
     [Fetch_POST ''/v4/user/login'', Fetch_GET ''/v4/leagues'' (Some ''token'')]"
    by (simp add: runCheck_def check_body_def getKickbaseBudget_def budget_body_def
      getKickbaseLeagues_def ensureAuthenticated_def isTokenValid_def
      loginToKickbase_def login_body_def log_and_rethrow_def record_call_def console_error_def
      new_Date_def TimeClip_def sample_env_def json_ok_def ok_def initial_def Let_def
      possibleEndpoints_def)
  from no_leagues_anywhere [OF a b c] a run show ?thesis by simp
qed

text \<open>
  C7. When the budget is below the threshold and the notification call is rejected,
  \<^verbatim>\<open>sendWhatsappAlert\<close> catches the rejection, writes it to the error log under
  "Error sending message:" and returns normally; \<^verbatim>\<open>runCheck\<close> returns normally with
  that state, so nothing is logged as a fatal error.
\<close>

theorem notification_failure_not_fatal:
  assumes "getKickbaseBudget env w = (Inr b, w1)"
    and "b < KICKBASE_BUDGET_THRESHOLD"
    and "messages_create env (length (calls w1)) = Inl m"
  shows "sendWhatsappAlert env b w1 =
           (Inr (), console_error ''Error sending message:'' (Err (Rejection m))
                      (record_call (Messages_create (contentVariables env b)) w1)) \<and>
         runCheck env w = sendWhatsappAlert env b w1 \<and>
         console (snd (runCheck env w)) =
           console w1 @ [(''Error sending message:'', Err (Rejection m))]"
  using assms runCheck_after_budget [OF assms(1)]
  by (simp add: sendWhatsappAlert_def console_error_def record_call_def Let_def)

theorem notification_failure_not_fatal_witness:
  "- 100 < KICKBASE_BUDGET_THRESHOLD \<and>
   runCheck (sample_env (Some [Some league_1]) (Bare []) (Some (- 100)) (Inl ''ECONNREFUSED'')) initial
     = (Inr (), (logged_in [Some league_1]
         [Fetch_POST ''/v4/user/login'', Fetch_GET ''/v4/leagues/42/me/budget'' (Some ''token''),
          Messages_create [(''1'', ''-0.00M''), (''2'', ''20:30'')]] 1)
         \<lparr>console := [(''Error sending message:'', Err (Rejection ''ECONNREFUSED''))]\<rparr>)"
proof -
  let ?env = "sample_env (Some [Some league_1]) (Bare []) (Some (- 100)) (Inl ''ECONNREFUSED'')"
  let ?w1 = "logged_in [Some league_1]
        [Fetch_POST ''/v4/user/login'', Fetch_GET ''/v4/leagues/42/me/budget'' (Some ''token'')] 1"
  have a: "getKickbaseBudget ?env initial = (Inr (- 100), ?w1)"
    using sample_budget [of "Bare []" "Some (- 100)" "Inl ''ECONNREFUSED''"] by simp
  have b: "- 100 < KICKBASE_BUDGET_THRESHOLD" by (simp add: KICKBASE_BUDGET_THRESHOLD_def)
  have c: "messages_create ?env (length (calls ?w1)) = Inl ''ECONNREFUSED''"
    by (simp add: sample_env_def)
  from notification_failure_not_fatal [OF a b c] b show ?thesis
    by (simp add: console_error_def record_call_def logged_in_def contentVariables_def
        millions_100)
qed



text \<open>
  C9. An error of \<^verbatim>\<open>ensureAuthenticated\<close> is the error of \<^verbatim>\<open>getKickbaseBudget\<close>.
  When \<^verbatim>\<open>getKickbaseBudget\<close> fails, \<^verbatim>\<open>runCheck\<close> logs that error under "Fatal error
  during budget check:" and returns, and no notification call is made in the run. When
  the budget is resolved, the run returns normally and logs no fatal error, whatever
  the notification call does.
\<close>

theorem fatal_failure_no_alert:
  "(ensureAuthenticated env w = (Inl e, w0) \<longrightarrow> fst (getKickbaseBudget env w) = Inl e) \<and>
   (getKickbaseBudget env w = (Inl e, w1) \<longrightarrow>
      runCheck env w = (Inr (), console_error ''Fatal error during budget check:'' (Err e) w1) \<and>
      filter is_notification (calls_since w (snd (runCheck env w))) = []) \<and>
   (getKickbaseBudget env' w' = (Inr b, w1') \<longrightarrow>
      fst (runCheck env' w') = Inr () \<and>
      filter (\<lambda>l. fst l = ''Fatal error during budget check:'') (console (snd (runCheck env' w')))
        = filter (\<lambda>l. fst l = ''Fatal error during budget check:'') (console w1'))"
proof (intro conjI impI)
  assume "ensureAuthenticated env w = (Inl e, w0)"
  then show "fst (getKickbaseBudget env w) = Inl e"
    by (simp add: getKickbaseBudget_def log_and_rethrow_fst budget_body_def)
next
  assume fail: "getKickbaseBudget env w = (Inl e, w1)"
  then show run: "runCheck env w =
      (Inr (), console_error ''Fatal error during budget check:'' (Err e) w1)"
    by (rule runCheck_after_failure)
  from getKickbaseBudget_extends [of env w] fail obtain cs where
    "calls w1 = calls w @ cs" "list_all (\<lambda>c. \<not> is_notification c) cs" by auto
  then show "filter is_notification (calls_since w (snd (runCheck env w))) = []"
    by (simp add: run calls_since_def console_error_def list_all_iff filter_empty_conv)
next
  assume ok: "getKickbaseBudget env' w' = (Inr b, w1')"
  show "fst (runCheck env' w') = Inr ()"
    using runCheck_after_budget [OF ok] by simp
  show "filter (\<lambda>l. fst l = ''Fatal error during budget check:'') (console (snd (runCheck env' w')))
        = filter (\<lambda>l. fst l = ''Fatal error during budget check:'') (console w1')"
    using runCheck_after_budget [OF ok]
    by (simp add: sendWhatsappAlert_def console_error_def record_call_def Let_def split: sum.splits)
qed

theorem fatal_failure_no_alert_witness:
  "fst (ensureAuthenticated env_offline initial) = Inl (Rejection ''fetch failed'') \<and>
   fst (getKickbaseBudget env_offline initial) = Inl (Rejection ''fetch failed'') \<and>
   runCheck env_offline initial =
     (Inr (), initial\<lparr>calls := [Fetch_POST ''/v4/user/login''],
        console := [(''Failed to login to Kickbase:'', Err (Rejection ''fetch failed'')),
                    (''Authentication failed:'', Err (Rejection ''fetch failed'')),
                    (''Failed to fetch budget:'', Err (Rejection ''fetch failed'')),
                    (''Fatal error during budget check:'', Err (Rejection ''fetch failed''))]\<rparr>) \<and>
   fst (getKickbaseBudget (sample_env (Some [Some league_1]) (Bare []) (Some (- 100))
          (Inl ''ECONNREFUSED'')) initial) = Inr (- 100) \<and>
   fst (runCheck (sample_env (Some [Some league_1]) (Bare []) (Some (- 100))
          (Inl ''ECONNREFUSED'')) initial) = Inr ()"
proof -
  let ?env = "sample_env (Some [Some league_1]) (Bare []) (Some (- 100)) (Inl ''ECONNREFUSED'')"
  let ?w1 = "logged_in [Some league_1]
        [Fetch_POST ''/v4/user/login'', Fetch_GET ''/v4/leagues/42/me/budget'' (Some ''token'')] 1"
  have c: "getKickbaseBudget ?env initial = (Inr (- 100), ?w1)"
    using sample_budget [of "Bare []" "Some (- 100)" "Inl ''ECONNREFUSED''"] by simp
  from fatal_failure_no_alert [of env_offline initial "Rejection ''fetch failed''"
      "snd (ensureAuthenticated env_offline initial)"
      "snd (getKickbaseBudget env_offline initial)" ?env initial "- 100" ?w1]
    offline_login offline_budget c
  show ?thesis by (simp add: console_error_def initial_def)
qed

lemma null_entry_leagues:
  "getKickbaseLeagues (sample_env (Some [None]) (Bare []) None (Inr ''SM1'')) initial =
     (Inr [None], logged_in [None] [Fetch_POST ''/v4/user/login''] 0)"
  by (simp add: getKickbaseLeagues_def sample_login)
    (simp add: logged_in_def)

lemma null_entry_budget:
  "fst (getKickbaseBudget (sample_env (Some [None]) (Bare []) None (Inr ''SM1'')) initial) =
     Inl (Error ''No primary league found'')"
proof -
  let ?env = "sample_env (Some [None]) (Bare []) None (Inr ''SM1'')"
  let ?w1 = "logged_in [None] [Fetch_POST ''/v4/user/login''] 0"
  have a: "ensureAuthenticated ?env initial = (Inr (), ?w1)"
    using sample_login [of "Some [None]"] by simp
  have "ensureAuthenticated ?env ?w1 = (Inr (), ?w1\<lparr>clock_reads := Suc (clock_reads ?w1)\<rparr>)"
    by (rule ensureAuthenticated_valid) (simp add: sample_valid)
  then have b: "getKickbaseLeagues ?env ?w1 =
      (Inr [None], ?w1\<lparr>clock_reads := Suc (clock_reads ?w1)\<rparr>)"
    by (simp add: getKickbaseLeagues_def logged_in_def)
  from budget_body_after_leagues [OF a b] show ?thesis
    by (simp add: getKickbaseBudget_def log_and_rethrow_fst)
qed

text \<open>
  C10, as stated: whenever \<^verbatim>\<open>getKickbaseLeagues\<close> returns, the sequence is not empty,
  and so neither defensive error of \<^verbatim>\<open>getKickbaseBudget\<close> can occur. The second one
  can: a login that answers \<^verbatim>\<open>srvl: [null]\<close> fills the cache with a sequence of length
  one whose first entry is falsy, and \<^verbatim>\<open>!primaryLeague\<close> holds.
\<close>

theorem no_primary_league_counterexample:
  "fst (getKickbaseLeagues (sample_env (Some [None]) (Bare []) None (Inr ''SM1'')) initial) =
     Inr [None] \<and>
   fst (getKickbaseBudget (sample_env (Some [None]) (Bare []) None (Inr ''SM1'')) initial) =
     Inl (Error ''No primary league found'')"
  by (simp add: null_entry_leagues null_entry_budget)

text \<open>
  C10, amended: whenever \<^verbatim>\<open>getKickbaseLeagues\<close> returns, the sequence it returns is
  not empty, so \<^verbatim>\<open>getKickbaseBudget\<close> never fails with "No leagues found for user";
  it fails with "No primary league found" exactly when the sequence it got has a
  falsy first entry.
\<close>

theorem getKickbaseLeagues_never_empty:
  "(getKickbaseLeagues env w = (Inr ls, w') \<longrightarrow> ls \<noteq> []) \<and>
   fst (getKickbaseBudget env w) \<noteq> Inl (Error ''No leagues found for user'') \<and>
   (fst (getKickbaseBudget env w) = Inl (Error ''No primary league found'') \<longleftrightarrow>
      (\<exists>u w1 entries w2. ensureAuthenticated env w = (Inr u, w1) \<and>
         getKickbaseLeagues env w1 = (Inr entries, w2) \<and> hd entries = None))"
  using getKickbaseLeagues_nonempty [of env w ls w']
    budget_body_not_empty_error [of env w] budget_body_no_primary [of env w]
  by (simp add: getKickbaseBudget_def log_and_rethrow_fst)

theorem getKickbaseLeagues_never_empty_witness:
  "getKickbaseLeagues (sample_env (Some [None]) (Bare []) None (Inr ''SM1'')) initial =
     (Inr [None], logged_in [None] [Fetch_POST ''/v4/user/login''] 0) \<and>
   [None :: league_entry] \<noteq> [] \<and>
   (\<exists>u w1 entries w2.
      ensureAuthenticated (sample_env (Some [None]) (Bare []) None (Inr ''SM1'')) initial
        = (Inr u, w1) \<and>
      getKickbaseLeagues (sample_env (Some [None]) (Bare []) None (Inr ''SM1'')) w1
        = (Inr entries, w2) \<and> hd entries = None)"
  using getKickbaseLeagues_never_empty
    [of "sample_env (Some [None]) (Bare []) None (Inr ''SM1'')" initial "[None]"
      "logged_in [None] [Fetch_POST ''/v4/user/login''] 0"]
    null_entry_leagues null_entry_budget
  by simp

end
